theory Spec2Isabelle
  imports Complex_Main
begin

section \<open>Fitness tracker: a shallow embedding of homework.py\<close>

text \<open>
  Numbers. A Python \<open>int\<close> or finite \<open>float\<close> is modelled by the real number it
  denotes, so the workout formulas are exact: rounding error and overflow of IEEE
  doubles are outside the model. A numeric field of an \<open>InfoMessage\<close> can hold any
  Python value, so the values that reach the formatter also include the non-finite
  floats and the exception classes that the source hands around as ordinary values.

  Errors. Every exception the modelled code can raise is a value of \<open>py_error\<close>; a
  function that can raise returns \<open>py_error + 'a\<close>, with \<open>Inl\<close> the exception.
\<close>

subsection \<open>Exceptions and values\<close>

datatype py_error = ZeroDivisionError | TypeError | AttributeError

text \<open>The exception classes that the source returns as values instead of raising.\<close>

datatype exc_class = ValueError | NotImplementedError

subsection \<open>The workout classes\<close>

text \<open>
  One constructor per class; the base class \<open>Training\<close> can be instantiated too.
  The selectors are the instance attributes set by \<open>__init__\<close>.
\<close>

datatype training =
    Training (action: real) (duration: real) (weight: real)
  | Running (action: real) (duration: real) (weight: real)
  | SportsWalking (action: real) (duration: real) (weight: real) (height: real)
  | Swimming (action: real) (duration: real) (weight: real)
      (length_pool: real) (count_pool: real)

datatype py_value =
    Num real
  | PosInf
  | NegInf
  | NaN
  | ExcClass exc_class
  | Instance training

text \<open>Class attributes. \<open>LEN_STEP\<close> is overridden by \<open>Swimming\<close>.\<close>

definition M_IN_KM :: real where
  "M_IN_KM = 1000"

definition MIN_IN_HOUR :: real where
  "MIN_IN_HOUR = 60"

fun LEN_STEP :: "training \<Rightarrow> real" where
  "LEN_STEP (Swimming a d w lp cp) = 1.38"
| "LEN_STEP t = 0.65"

definition COEFF_CAL_1 :: real where
  "COEFF_CAL_1 = 18"

definition COEFF_CAL_2 :: real where
  "COEFF_CAL_2 = 20"

definition COEFF_WEIGHT_WLK_1 :: real where
  "COEFF_WEIGHT_WLK_1 = 0.035"

definition COEFF_WEIGHT_WLK_2 :: real where
  "COEFF_WEIGHT_WLK_2 = 0.029"

definition COEFF_1 :: real where
  "COEFF_1 = 1.1"

definition COEFF_2 :: real where
  "COEFF_2 = 2"

text \<open>\<open>__class__.__name__\<close>\<close>

fun class_name :: "training \<Rightarrow> string" where
  "class_name (Training a d w) = ''Training''"
| "class_name (Running a d w) = ''Running''"
| "class_name (SportsWalking a d w h) = ''SportsWalking''"
| "class_name (Swimming a d w lp cp) = ''Swimming''"

subsection \<open>Python division\<close>

text \<open>Both \<open>/\<close> and \<open>//\<close> raise \<open>ZeroDivisionError\<close> on a zero divisor.\<close>

definition py_truediv :: "real \<Rightarrow> real \<Rightarrow> py_error + real" where
  "py_truediv a b = (if b = 0 then Inl ZeroDivisionError else Inr (a / b))"

definition py_floordiv :: "real \<Rightarrow> real \<Rightarrow> py_error + real" where
  "py_floordiv a b =
     (if b = 0 then Inl ZeroDivisionError else Inr (real_of_int \<lfloor>a / b\<rfloor>))"

subsection \<open>The methods\<close>

text \<open>\<open>Training.get_distance\<close>, inherited by every subclass. The divisor is the
  constant \<open>M_IN_KM\<close>, so this method cannot raise.\<close>

definition get_distance :: "training \<Rightarrow> real" where
  "get_distance t = action t * LEN_STEP t / M_IN_KM"

text \<open>\<open>get_mean_speed\<close>: overridden by \<open>Swimming\<close>, inherited otherwise.\<close>

fun get_mean_speed :: "training \<Rightarrow> py_error + real" where
  "get_mean_speed (Swimming a d w lp cp) =
     (let value_pool = lp * cp
      in py_truediv (value_pool / M_IN_KM) d)"
| "get_mean_speed t = py_truediv (get_distance t) (duration t)"

text \<open>\<open>get_spent_calories\<close>: the base class returns the class
  \<open>NotImplementedError\<close>; each subclass has its own formula.\<close>

fun get_spent_calories :: "training \<Rightarrow> py_error + py_value" where
  "get_spent_calories (Training a d w) = Inr (ExcClass NotImplementedError)"
| "get_spent_calories (Running a d w) =
     (case get_mean_speed (Running a d w) of
        Inl e \<Rightarrow> Inl e
      | Inr ms \<Rightarrow>
          (let speed = COEFF_CAL_1 * ms - COEFF_CAL_2;
               training_in_min = d * MIN_IN_HOUR
           in Inr (Num (speed * w / M_IN_KM * training_in_min))))"
| "get_spent_calories (SportsWalking a d w h) =
     (let weight_gl_wlk = COEFF_WEIGHT_WLK_2 * w
      in case get_mean_speed (SportsWalking a d w h) of
           Inl e \<Rightarrow> Inl e
         | Inr ms \<Rightarrow>
             (case py_floordiv (ms ^ 2) h of
                Inl e \<Rightarrow> Inl e
              | Inr speed_gd_wlk \<Rightarrow>
                  (let time_duration = d * MIN_IN_HOUR;
                       calories_sw = (COEFF_WEIGHT_WLK_1 * w
                                      + speed_gd_wlk * weight_gl_wlk) * time_duration
                   in Inr (Num calories_sw))))"
| "get_spent_calories (Swimming a d w lp cp) =
     (let value_weight = COEFF_2 * w
      in case get_mean_speed (Swimming a d w lp cp) of
           Inl e \<Rightarrow> Inl e
         | Inr ms \<Rightarrow> Inr (Num ((ms + COEFF_1) * value_weight)))"

subsection \<open>Rendering the message\<close>

text \<open>
  Strings are byte strings in UTF-8, the form in which the message is printed; the
  Cyrillic words of the template are written by their code points.
\<close>

definition utf8_char :: "nat \<Rightarrow> string" where
  "utf8_char c =
     (if c < 128 then [char_of c]
      else [char_of (192 + c div 64), char_of (128 + c mod 64)])"

definition utf8 :: "nat list \<Rightarrow> string" where
  "utf8 cs = concat (map utf8_char cs)"

text \<open>
  The format specification \<open>.3f\<close> of Python on a finite number: an optional minus sign,
  the digits of the integer part, a point and three fraction digits, the value being
  rounded to the nearest thousandth, a tie going to the even one.
\<close>

definition round_half_even :: "real \<Rightarrow> int" where
  "round_half_even x =
     (let f = \<lfloor>x\<rfloor>; r = x - real_of_int f
      in if r < 1 / 2 then f
         else if 1 / 2 < r then f + 1
         else if even f then f else f + 1)"

definition digit_char :: "nat \<Rightarrow> char" where
  "digit_char n = char_of (48 + n)"

fun decimal :: "nat \<Rightarrow> string" where
  "decimal n = (if n < 10 then [digit_char n] else decimal (n div 10) @ [digit_char (n mod 10)])"

declare decimal.simps [simp del]

definition fixed_3f :: "real \<Rightarrow> string" where
  "fixed_3f x =
     (let n = nat (round_half_even (\<bar>x\<bar> * 1000))
      in (if x < 0 then ''-'' else [])
         @ decimal (n div 1000) @ ''.''
         @ [digit_char (n div 100 mod 10), digit_char (n div 10 mod 10), digit_char (n mod 10)])"

text \<open>
  \<open>format(v, '.3f')\<close> on any value: the non-finite floats are spelled out, and a value
  that is not a number raises \<open>TypeError\<close>.
\<close>

fun format_3f :: "py_value \<Rightarrow> py_error + string" where
  "format_3f (Num x) = Inr (fixed_3f x)"
| "format_3f PosInf = Inr ''inf''"
| "format_3f NegInf = Inr ''-inf''"
| "format_3f NaN = Inr ''nan''"
| "format_3f (ExcClass c) = Inl TypeError"
| "format_3f (Instance t) = Inl TypeError"

text \<open>
  A template is held as the list of its pieces: literal text, the replacement field
  \<open>{training_type}\<close>, and a replacement field of one of the four numbers with the
  specification \<open>.3f\<close>. These are the pieces of the default template; a template with
  a replacement field of another kind has no representation here.
\<close>

datatype numeric_field = F_duration | F_distance | F_speed | F_calories

datatype piece = Text string | Field_training_type | Field_3f numeric_field

definition text_type :: string where
  "text_type =
     utf8 [0x422, 0x438, 0x43F] @ '' ''
     @ utf8 [0x442, 0x440, 0x435, 0x43D, 0x438, 0x440, 0x43E, 0x432, 0x43A, 0x438] @ '': ''"

definition text_duration :: string where
  "text_duration =
     ''; ''
     @ utf8 [0x414, 0x43B, 0x438, 0x442, 0x435, 0x43B, 0x44C, 0x43D, 0x43E, 0x441, 0x442, 0x44C]
     @ '': ''"

definition text_distance :: string where
  "text_distance =
     '' '' @ utf8 [0x447] @ ''.; ''
     @ utf8 [0x414, 0x438, 0x441, 0x442, 0x430, 0x43D, 0x446, 0x438, 0x44F] @ '': ''"

definition text_speed :: string where
  "text_speed =
     '' '' @ utf8 [0x43A, 0x43C] @ ''; '' @ utf8 [0x421, 0x440] @ ''. ''
     @ utf8 [0x441, 0x43A, 0x43E, 0x440, 0x43E, 0x441, 0x442, 0x44C] @ '': ''"

definition text_calories :: string where
  "text_calories =
     '' '' @ utf8 [0x43A, 0x43C] @ ''/'' @ utf8 [0x447] @ ''; ''
     @ utf8 [0x41F, 0x43E, 0x442, 0x440, 0x430, 0x447, 0x435, 0x43D, 0x43E] @ '' ''
     @ utf8 [0x43A, 0x43A, 0x430, 0x43B] @ '': ''"

definition text_end :: string where
  "text_end = ''.''"

text \<open>The default of \<open>MESSAGE\<close>.\<close>

definition MESSAGE_default :: "piece list" where
  "MESSAGE_default =
     [Text text_type, Field_training_type,
      Text text_duration, Field_3f F_duration,
      Text text_distance, Field_3f F_distance,
      Text text_speed, Field_3f F_speed,
      Text text_calories, Field_3f F_calories,
      Text text_end]"

text \<open>
  \<open>InfoMessage\<close>: the dataclass of the summary. \<open>MESSAGE\<close> is an annotated
  attribute with a default, hence the sixth field of the dataclass and the sixth parameter
  of its constructor: an instance built from five arguments has the default template, an
  instance built from six has the template it was given.
\<close>

record InfoMessage =
  training_type :: string
  duration :: py_value
  distance :: py_value
  speed :: py_value
  calories :: py_value
  MESSAGE :: "piece list"

fun field_value :: "InfoMessage \<Rightarrow> numeric_field \<Rightarrow> py_value" where
  "field_value m F_duration = InfoMessage.duration m"
| "field_value m F_distance = InfoMessage.distance m"
| "field_value m F_speed = InfoMessage.speed m"
| "field_value m F_calories = InfoMessage.calories m"

fun render_piece :: "InfoMessage \<Rightarrow> piece \<Rightarrow> py_error + string" where
  "render_piece m (Text s) = Inr s"
| "render_piece m Field_training_type = Inr (training_type m)"
| "render_piece m (Field_3f f) = format_3f (field_value m f)"

text \<open>\<open>str.format\<close> on the fields of the instance: the pieces are rendered from left
  to right.\<close>

fun format_pieces :: "InfoMessage \<Rightarrow> piece list \<Rightarrow> py_error + string" where
  "format_pieces m [] = Inr []"
| "format_pieces m (p # ps) =
     (case render_piece m p of
        Inl e \<Rightarrow> Inl e
      | Inr s \<Rightarrow>
          (case format_pieces m ps of
             Inl e \<Rightarrow> Inl e
           | Inr r \<Rightarrow> Inr (s @ r)))"

text \<open>\<open>get_message\<close> formats the template of the instance, \<open>self.MESSAGE\<close>.\<close>

definition get_message :: "InfoMessage \<Rightarrow> py_error + string" where
  "get_message m = format_pieces m (MESSAGE m)"

subsection \<open>The summary of a workout\<close>

text \<open>\<open>Training.show_training_info\<close>: the arguments are evaluated left to right,
  and an exception of one of them leaves the method. The constructor is called with five
  arguments, so the template is the default.\<close>

definition show_training_info :: "training \<Rightarrow> py_error + InfoMessage" where
  "show_training_info t =
     (case get_mean_speed t of
        Inl e \<Rightarrow> Inl e
      | Inr v \<Rightarrow>
          (case get_spent_calories t of
             Inl e \<Rightarrow> Inl e
           | Inr c \<Rightarrow>
               Inr \<lparr>training_type = class_name t,
                    duration = Num (training.duration t),
                    distance = Num (get_distance t),
                    speed = Num v,
                    calories = c,
                    MESSAGE = MESSAGE_default\<rparr>))"

subsection \<open>The dispatcher\<close>

text \<open>The classes stored in \<open>training_dict\<close>, and the call of a class on the spread
  parameter list: a list of the wrong length raises \<open>TypeError\<close>.\<close>

datatype training_cls = Swimming_cls | Running_cls | SportsWalking_cls

fun construct :: "training_cls \<Rightarrow> real list \<Rightarrow> py_error + training" where
  "construct Swimming_cls [a, d, w, lp, cp] = Inr (Swimming a d w lp cp)"
| "construct Running_cls [a, d, w] = Inr (Running a d w)"
| "construct SportsWalking_cls [a, d, w, h] = Inr (SportsWalking a d w h)"
| "construct c data = Inl TypeError"

definition training_dict :: "string \<rightharpoonup> training_cls" where
  "training_dict =
     map_of [(''SWM'', Swimming_cls), (''RUN'', Running_cls), (''WLK'', SportsWalking_cls)]"

definition read_package :: "string \<Rightarrow> real list \<Rightarrow> py_error + py_value" where
  "read_package workout_type data =
     (case training_dict workout_type of
        None \<Rightarrow> Inr (ExcClass ValueError)
      | Some cls \<Rightarrow>
          (case construct cls data of
             Inl e \<Rightarrow> Inl e
           | Inr t \<Rightarrow> Inr (Instance t)))"

text \<open>
  \<open>main\<close>, with the printed line as its result. A value that is not a workout has no
  method \<open>show_training_info\<close>.
\<close>

fun main :: "py_value \<Rightarrow> py_error + string" where
  "main (Instance t) =
     (case show_training_info t of
        Inl e \<Rightarrow> Inl e
      | Inr info \<Rightarrow> get_message info)"
| "main v = Inl AttributeError"

text \<open>The summary of the Running package of the script, built directly:
  \<open>InfoMessage('Running', 1, 9.75, 9.75, 699.75)\<close>.\<close>

definition Running_summary :: InfoMessage where
  "Running_summary =
     \<lparr>training_type = ''Running'', duration = Num 1, distance = Num 9.75,
      speed = Num 9.75, calories = Num 699.75, MESSAGE = MESSAGE_default\<rparr>"

subsection \<open>What "formatted to three decimal places" means\<close>

text \<open>
  A string has three decimal places when it is an optional minus sign, at least one
  digit, a point and exactly three digits; \<open>decimal_value\<close> reads such a string back.
\<close>

definition is_digit :: "char \<Rightarrow> bool" where
  "is_digit c = (48 \<le> (of_char c :: nat) \<and> (of_char c :: nat) \<le> 57)"

definition digit_val :: "char \<Rightarrow> nat" where
  "digit_val c = of_char c - 48"

definition nat_of_digits :: "string \<Rightarrow> nat" where
  "nat_of_digits s = foldl (\<lambda>n c. 10 * n + digit_val c) 0 s"

definition strip_sign :: "string \<Rightarrow> string" where
  "strip_sign s = (case s of [] \<Rightarrow> [] | c # r \<Rightarrow> if c = CHR ''-'' then r else s)"

definition three_decimal_places :: "string \<Rightarrow> bool" where
  "three_decimal_places s =
     (let u = strip_sign s;
          ip = takeWhile is_digit u;
          rest = dropWhile is_digit u
      in ip \<noteq> [] \<and> length rest = 4 \<and> hd rest = CHR ''.'' \<and> list_all is_digit (tl rest))"

definition decimal_value :: "string \<Rightarrow> real" where
  "decimal_value s =
     (let u = strip_sign s;
          ip = takeWhile is_digit u;
          fp = tl (dropWhile is_digit u);
          m = real (nat_of_digits ip) + real (nat_of_digits fp) / 1000
      in if s \<noteq> [] \<and> hd s = CHR ''-'' then - m else m)"

section \<open>Properties\<close>

subsection \<open>Helper facts\<close>

lemmas class_consts =
  M_IN_KM_def MIN_IN_HOUR_def COEFF_CAL_1_def COEFF_CAL_2_def
  COEFF_WEIGHT_WLK_1_def COEFF_WEIGHT_WLK_2_def COEFF_1_def COEFF_2_def

lemmas method_defs = get_distance_def py_truediv_def py_floordiv_def class_consts Let_def

lemma walking_floor: "\<lfloor>(5.85::real)\<^sup>2 / 180\<rfloor> = 0"
  by (simp add: floor_eq_iff power2_eq_square)

lemma list3: "length xs = 3 \<Longrightarrow> xs = [xs ! 0, xs ! 1, xs ! 2]"
  by (auto simp: numeral_eq_Suc length_Suc_conv)

lemma list4: "length xs = 4 \<Longrightarrow> xs = [xs ! 0, xs ! 1, xs ! 2, xs ! 3]"
  by (auto simp: numeral_eq_Suc length_Suc_conv)

lemma list5: "length xs = 5 \<Longrightarrow> xs = [xs ! 0, xs ! 1, xs ! 2, xs ! 3, xs ! 4]"
  by (auto simp: numeral_eq_Suc length_Suc_conv)

lemma read_package_SWM:
  "read_package ''SWM'' [a, d, w, lp, cp] = Inr (Instance (Swimming a d w lp cp))"
  by (simp add: read_package_def training_dict_def)

lemma read_package_RUN:
  "read_package ''RUN'' [a, d, w] = Inr (Instance (Running a d w))"
  by (simp add: read_package_def training_dict_def)

lemma read_package_WLK:
  "read_package ''WLK'' [a, d, w, h] = Inr (Instance (SportsWalking a d w h))"
  by (simp add: read_package_def training_dict_def)

lemma Running_formula_negative:
  assumes "0 < d" "0 < w" "v < 20 / 18"
  shows "(18 * v - 20) * w / 1000 * (d * 60) < (0::real)"
proof -
  have "18 * v - 20 < 0"
    using assms(3) by simp
  then have "(18 * v - 20) * w < 0"
    using assms(2) by (simp add: mult_neg_pos)
  then have "(18 * v - 20) * w / 1000 < 0"
    by simp
  moreover have "0 < d * 60"
    using assms(1) by simp
  ultimately show ?thesis
    by (rule mult_neg_pos)
qed

subsection \<open>Helper facts about the formatter\<close>

lemma round_half_even_close: "\<bar>real_of_int (round_half_even y) - y\<bar> \<le> 1 / 2"
proof -
  have "real_of_int \<lfloor>y\<rfloor> \<le> y" and "y < real_of_int \<lfloor>y\<rfloor> + 1"
    by linarith+
  then show ?thesis
    by (auto simp: round_half_even_def Let_def)
qed

lemma round_half_even_nonneg: "0 \<le> y \<Longrightarrow> 0 \<le> round_half_even y"
proof -
  assume "0 \<le> y"
  then have "0 \<le> \<lfloor>y\<rfloor>"
    by simp
  then show ?thesis
    by (auto simp: round_half_even_def Let_def)
qed

lemma is_digit_digit_char: "n < 10 \<Longrightarrow> is_digit (digit_char n)"
  by (simp add: is_digit_def digit_char_def)

lemma digit_val_digit_char: "n < 10 \<Longrightarrow> digit_val (digit_char n) = n"
  by (simp add: digit_val_def digit_char_def)

lemma not_is_digit_point: "\<not> is_digit CHR ''.''"
  by (simp add: is_digit_def)

lemma not_is_digit_minus: "\<not> is_digit CHR ''-''"
  by (simp add: is_digit_def)

lemma decimal_nonempty: "decimal n \<noteq> []"
  by (subst decimal.simps) simp

lemma decimal_all_digits: "list_all is_digit (decimal n)"
proof (induction n rule: decimal.induct)
  case (1 n)
  show ?case
  proof (cases "n < 10")
    case True
    then show ?thesis
      by (subst decimal.simps) (simp add: is_digit_digit_char)
  next
    case False
    with "1" show ?thesis
      by (subst decimal.simps) (simp add: is_digit_digit_char)
  qed
qed

lemma nat_of_digits_snoc: "nat_of_digits (xs @ [c]) = 10 * nat_of_digits xs + digit_val c"
  by (simp add: nat_of_digits_def)

lemma nat_of_digits_decimal: "nat_of_digits (decimal n) = n"
proof (induction n rule: decimal.induct)
  case (1 n)
  show ?case
  proof (cases "n < 10")
    case True
    then show ?thesis
      by (subst decimal.simps) (simp add: nat_of_digits_def digit_val_digit_char)
  next
    case False
    with "1" show ?thesis
      by (subst decimal.simps) (simp add: nat_of_digits_snoc digit_val_digit_char)
  qed
qed

lemma nat_of_three_digits:
  "nat_of_digits [digit_char (n div 100 mod 10), digit_char (n div 10 mod 10), digit_char (n mod 10)]
     = n mod 1000"
proof -
  have "nat_of_digits [digit_char (n div 100 mod 10), digit_char (n div 10 mod 10),
          digit_char (n mod 10)]
        = 100 * (n div 100 mod 10) + 10 * (n div 10 mod 10) + n mod 10"
    by (simp add: nat_of_digits_def digit_val_digit_char)
  also have "\<dots> = n mod 1000"
  proof -
    have a: "n mod 1000 = 10 * (n div 10 mod 100) + n mod 10"
      using mod_mult2_eq [of n 10 100] by simp
    have b: "n div 10 mod 100 = 10 * (n div 10 div 10 mod 10) + n div 10 mod 10"
      using mod_mult2_eq [of "n div 10" 10 10] by simp
    have c: "n div 10 div 10 = n div 100"
      by (simp add: div_mult2_eq)
    show ?thesis
      unfolding a b c by simp
  qed
  finally show ?thesis .
qed

lemma split_digits:
  assumes "list_all is_digit ip" "ip \<noteq> []"
  shows "takeWhile is_digit (ip @ CHR ''.'' # fp) = ip"
    and "dropWhile is_digit (ip @ CHR ''.'' # fp) = CHR ''.'' # fp"
  using assms by (simp_all add: list_all_iff not_is_digit_point)

lemma strip_sign_digits:
  assumes "list_all is_digit ip" "ip \<noteq> []"
  shows "strip_sign (ip @ r) = ip @ r"
proof -
  obtain c cs where ip: "ip = c # cs"
    using assms(2) by (cases ip) auto
  with assms(1) have "is_digit c"
    by simp
  then have "c \<noteq> CHR ''-''"
    using not_is_digit_minus by auto
  then show ?thesis
    by (simp add: strip_sign_def ip)
qed

lemma hd_digits:
  assumes "list_all is_digit ip" "ip \<noteq> []"
  shows "hd (ip @ r) \<noteq> CHR ''-''"
proof -
  obtain c cs where ip: "ip = c # cs"
    using assms(2) by (cases ip) auto
  with assms(1) have "is_digit c"
    by simp
  then have "c \<noteq> CHR ''-''"
    using not_is_digit_minus by auto
  then show ?thesis
    by (simp add: ip)
qed

lemma three_decimal_places_unsigned:
  assumes "list_all is_digit ip" "ip \<noteq> []" "list_all is_digit fp" "length fp = 3"
  shows "three_decimal_places (ip @ CHR ''.'' # fp)"
  using assms
  by (simp add: three_decimal_places_def Let_def strip_sign_digits split_digits)

lemma three_decimal_places_signed:
  assumes "list_all is_digit ip" "ip \<noteq> []" "list_all is_digit fp" "length fp = 3"
  shows "three_decimal_places (CHR ''-'' # ip @ CHR ''.'' # fp)"
  using assms
  by (simp add: three_decimal_places_def Let_def strip_sign_def split_digits)

lemma decimal_value_unsigned:
  assumes "list_all is_digit ip" "ip \<noteq> []"
  shows "decimal_value (ip @ CHR ''.'' # fp)
           = real (nat_of_digits ip) + real (nat_of_digits fp) / 1000"
  using assms hd_digits [OF assms, of "CHR ''.'' # fp"]
  by (simp add: decimal_value_def Let_def strip_sign_digits split_digits)

lemma decimal_value_signed:
  assumes "list_all is_digit ip" "ip \<noteq> []"
  shows "decimal_value (CHR ''-'' # ip @ CHR ''.'' # fp)
           = - (real (nat_of_digits ip) + real (nat_of_digits fp) / 1000)"
  using assms
  by (simp add: decimal_value_def Let_def strip_sign_def split_digits)

lemma fixed_3f_parts:
  "fixed_3f x =
     (if x < 0 then ''-'' else [])
     @ decimal (nat (round_half_even (\<bar>x\<bar> * 1000)) div 1000) @ CHR ''.''
     # [digit_char (nat (round_half_even (\<bar>x\<bar> * 1000)) div 100 mod 10),
        digit_char (nat (round_half_even (\<bar>x\<bar> * 1000)) div 10 mod 10),
        digit_char (nat (round_half_even (\<bar>x\<bar> * 1000)) mod 10)]"
  by (simp add: fixed_3f_def Let_def)

lemma three_digits_all:
  "list_all is_digit [digit_char (n div 100 mod 10), digit_char (n div 10 mod 10),
     digit_char (n mod 10)]"
  by (simp add: is_digit_digit_char)

lemma fixed_3f_three_decimal_places: "three_decimal_places (fixed_3f x)"
proof (cases "x < 0")
  case True
  then show ?thesis
    unfolding fixed_3f_parts
    using three_decimal_places_signed [OF decimal_all_digits decimal_nonempty three_digits_all]
    by simp
next
  case False
  then show ?thesis
    unfolding fixed_3f_parts
    using three_decimal_places_unsigned [OF decimal_all_digits decimal_nonempty three_digits_all]
    by simp
qed

lemma thousandths: "real (n div 1000) + real (n mod 1000) / 1000 = real n / 1000"
proof -
  have "n = 1000 * (n div 1000) + n mod 1000"
    by simp
  then have "real n = 1000 * real (n div 1000) + real (n mod 1000)"
    by (metis of_nat_add of_nat_mult of_nat_numeral)
  then show ?thesis
    by simp
qed

lemma fixed_3f_magnitude:
  "\<bar>real (nat (round_half_even (\<bar>x\<bar> * 1000))) / 1000 - \<bar>x\<bar>\<bar> \<le> 1 / 2000"
proof -
  define r where "r = real (nat (round_half_even (\<bar>x\<bar> * 1000)))"
  define a where "a = \<bar>x\<bar>"
  have "0 \<le> round_half_even (\<bar>x\<bar> * 1000)"
    by (rule round_half_even_nonneg) simp
  then have "r = real_of_int (round_half_even (\<bar>x\<bar> * 1000))"
    by (simp add: r_def)
  moreover have "\<bar>real_of_int (round_half_even (\<bar>x\<bar> * 1000)) - \<bar>x\<bar> * 1000\<bar> \<le> 1 / 2"
    by (rule round_half_even_close)
  ultimately have "\<bar>r - a * 1000\<bar> \<le> 1 / 2"
    by (simp add: a_def)
  then have "\<bar>r / 1000 - a\<bar> \<le> 1 / 2000"
    by linarith
  then show ?thesis
    by (simp add: r_def a_def)
qed

lemma fixed_3f_value: "\<bar>decimal_value (fixed_3f x) - x\<bar> \<le> 1 / 2000"
proof -
  define q where "q = real (nat (round_half_even (\<bar>x\<bar> * 1000))) / 1000"
  have close: "\<bar>q - \<bar>x\<bar>\<bar> \<le> 1 / 2000"
    unfolding q_def by (rule fixed_3f_magnitude)
  show ?thesis
  proof (cases "x < 0")
    case True
    have "decimal_value (fixed_3f x) = - q"
      unfolding fixed_3f_parts q_def using True
      by (simp add: decimal_value_signed [OF decimal_all_digits decimal_nonempty]
          nat_of_digits_decimal nat_of_three_digits thousandths)
    with close True show ?thesis
      by linarith
  next
    case False
    have "decimal_value (fixed_3f x) = q"
      unfolding fixed_3f_parts q_def using False
      by (simp add: decimal_value_unsigned [OF decimal_all_digits decimal_nonempty]
          nat_of_digits_decimal nat_of_three_digits thousandths)
    with close False show ?thesis
      by linarith
  qed
qed

lemma three_decimal_places_hd:
  assumes "three_decimal_places s"
  shows "s \<noteq> [] \<and> (hd s = CHR ''-'' \<or> is_digit (hd s))"
proof (cases s)
  case Nil
  with assms show ?thesis
    by (simp add: three_decimal_places_def strip_sign_def)
next
  case (Cons c r)
  show ?thesis
  proof (cases "c = CHR ''-''")
    case True
    with Cons show ?thesis by simp
  next
    case False
    with Cons assms have "takeWhile is_digit (c # r) \<noteq> []"
      by (simp add: three_decimal_places_def strip_sign_def Let_def)
    then have "is_digit c"
      by (simp split: if_splits)
    with Cons show ?thesis by simp
  qed
qed

lemma decimal_digit: "n < 10 \<Longrightarrow> decimal n = [digit_char n]"
  by (subst decimal.simps) simp

lemma decimal_step: "10 \<le> n \<Longrightarrow> decimal n = decimal (n div 10) @ [digit_char (n mod 10)]"
  by (subst decimal.simps) simp

lemma digit_char_values:
  "digit_char 0 = CHR ''0''" "digit_char 1 = CHR ''1''" "digit_char (Suc 0) = CHR ''1''"
  "digit_char 2 = CHR ''2''" "digit_char 3 = CHR ''3''" "digit_char 4 = CHR ''4''"
  "digit_char 5 = CHR ''5''" "digit_char 6 = CHR ''6''" "digit_char 7 = CHR ''7''"
  "digit_char 8 = CHR ''8''" "digit_char 9 = CHR ''9''"
  by (simp_all add: digit_char_def char_of_def bit_0)

lemmas fixed_3f_eval =
  fixed_3f_def round_half_even_def decimal_digit decimal_step digit_char_values

text \<open>The formatter on some numbers: padding, a negative number that rounds to zero,
  and two ties, each going to the even thousandth.\<close>

lemma fixed_3f_examples:
  "fixed_3f 699.75 = ''699.750''"
  "fixed_3f 1 = ''1.000''"
  "fixed_3f (- 0.0001) = ''-0.000''"
  "fixed_3f 0.0625 = ''0.062''"
  "fixed_3f 0.1875 = ''0.188''"
  by (simp_all add: fixed_3f_eval)

lemma get_message_default:
  "MESSAGE m = MESSAGE_default \<Longrightarrow> InfoMessage.duration m = Num d
   \<Longrightarrow> InfoMessage.distance m = Num s \<Longrightarrow> InfoMessage.speed m = Num v
   \<Longrightarrow> InfoMessage.calories m = Num c
   \<Longrightarrow> get_message m
     = Inr (text_type @ training_type m @ text_duration @ fixed_3f d @ text_distance
            @ fixed_3f s @ text_speed @ fixed_3f v @ text_calories @ fixed_3f c @ text_end)"
  by (simp add: get_message_def MESSAGE_default_def)

lemma show_training_info_template:
  "show_training_info t = Inr m \<Longrightarrow> MESSAGE m = MESSAGE_default"
  by (auto simp: show_training_info_def split: sum.splits)

lemma get_message_other_template:
  "get_message (Running_summary\<lparr>MESSAGE := [Text ''done'']\<rparr>) = Inr ''done''"
  by (simp add: get_message_def)

lemma three_decimal_places_start:
  assumes "three_decimal_places du" and "du @ r = c1 # c2 # r'"
  shows "is_digit c1 \<or> (c1 = CHR ''-'' \<and> is_digit c2)"
proof (cases du)
  case Nil
  with assms(1) show ?thesis
    by (simp add: three_decimal_places_def strip_sign_def)
next
  case (Cons c cs)
  with assms(2) have c1: "c1 = c"
    by simp
  show ?thesis
  proof (cases "c = CHR ''-''")
    case False
    with Cons assms(1) have "takeWhile is_digit (c # cs) \<noteq> []"
      by (simp add: three_decimal_places_def strip_sign_def Let_def)
    then have "is_digit c"
      by (simp split: if_splits)
    with c1 show ?thesis
      by simp
  next
    case True
    with Cons assms(1) have ne: "takeWhile is_digit cs \<noteq> []"
      by (simp add: three_decimal_places_def strip_sign_def Let_def)
    then obtain c' cs' where cs: "cs = c' # cs'"
      by (cases cs) auto
    with ne have "is_digit c'"
      by (simp split: if_splits)
    moreover from assms(2) Cons cs have "c2 = c'"
      by simp
    ultimately show ?thesis
      using c1 True by simp
  qed
qed

lemma duration_word_not_rendered:
  assumes fmt: "format_3f v = Inr (c1 # c2 # x)"
    and bad: "\<not> (is_digit c1 \<or> (c1 = CHR ''-'' \<and> is_digit c2))"
  shows "\<not> (\<exists>du di sp ca.
        get_message (Running_summary\<lparr>duration := v\<rparr>)
          = Inr (text_type @ ''Running'' @ text_duration @ du @ text_distance @ di
                 @ text_speed @ sp @ text_calories @ ca @ text_end)
        \<and> three_decimal_places du \<and> three_decimal_places di
        \<and> three_decimal_places sp \<and> three_decimal_places ca)"
proof
  assume "\<exists>du di sp ca.
        get_message (Running_summary\<lparr>duration := v\<rparr>)
          = Inr (text_type @ ''Running'' @ text_duration @ du @ text_distance @ di
                 @ text_speed @ sp @ text_calories @ ca @ text_end)
        \<and> three_decimal_places du \<and> three_decimal_places di
        \<and> three_decimal_places sp \<and> three_decimal_places ca"
  then obtain du r where
    eq: "get_message (Running_summary\<lparr>duration := v\<rparr>)
          = Inr (text_type @ ''Running'' @ text_duration @ du @ r)"
    and du: "three_decimal_places du"
    by blast
  have "get_message (Running_summary\<lparr>duration := v\<rparr>)
      = Inr (text_type @ ''Running'' @ text_duration @ (c1 # c2 # x) @ text_distance
             @ fixed_3f 9.75 @ text_speed @ fixed_3f 9.75 @ text_calories
             @ fixed_3f 699.75 @ text_end)"
    using fmt by (simp add: get_message_def MESSAGE_default_def Running_summary_def)
  with eq have "du @ r = c1 # c2 # (x @ text_distance
             @ fixed_3f 9.75 @ text_speed @ fixed_3f 9.75 @ text_calories
             @ fixed_3f 699.75 @ text_end)"
    by simp
  with du have "is_digit c1 \<or> (c1 = CHR ''-'' \<and> is_digit c2)"
    by (rule three_decimal_places_start)
  with bad show False
    by simp
qed

subsection \<open>The dispatcher\<close>

text \<open>
  C1 (what the code does). For every workout-type code that is not one of "SWM", "RUN",
  "WLK", and every parameter list, \<open>read_package\<close> raises nothing: it returns the class
  \<open>ValueError\<close> as an ordinary value. The claim asks for a signalled failure there.
\<close>

theorem read_package_unknown_returns_class:
  "(workout_type \<notin> {''SWM'', ''RUN'', ''WLK''} \<longrightarrow>
      read_package workout_type data = Inr (ExcClass ValueError))
   \<and> read_package ''XYZ'' [] = Inr (ExcClass ValueError)"
  by (simp add: read_package_def training_dict_def)

theorem read_package_unknown_returns_class_witness:
  "''XYZ'' \<notin> {''SWM'', ''RUN'', ''WLK''}
   \<and> read_package ''XYZ'' [15000, 1, 75] = Inr (ExcClass ValueError)"
proof -
  have pre: "''XYZ'' \<notin> {''SWM'', ''RUN'', ''WLK''}"
    by simp
  with read_package_unknown_returns_class [of "''XYZ''" "[15000, 1, 75]"] show ?thesis
    by blast
qed

text \<open>
  C7. For each code of the mapping and every parameter list whose length is the arity of
  the class (SWM 5, RUN 3, WLK 4), \<open>read_package\<close> returns an instance of that class
  whose attributes are the parameters, taken by position.
\<close>

theorem read_package_constructs:
  "(length data = 5 \<longrightarrow> read_package ''SWM'' data
       = Inr (Instance (Swimming (data ! 0) (data ! 1) (data ! 2) (data ! 3) (data ! 4))))
   \<and> (length data = 3 \<longrightarrow> read_package ''RUN'' data
       = Inr (Instance (Running (data ! 0) (data ! 1) (data ! 2))))
   \<and> (length data = 4 \<longrightarrow> read_package ''WLK'' data
       = Inr (Instance (SportsWalking (data ! 0) (data ! 1) (data ! 2) (data ! 3))))"
proof (intro conjI impI)
  assume "length data = 5"
  then have "data = [data ! 0, data ! 1, data ! 2, data ! 3, data ! 4]"
    by (rule list5)
  then show "read_package ''SWM'' data
       = Inr (Instance (Swimming (data ! 0) (data ! 1) (data ! 2) (data ! 3) (data ! 4)))"
    using read_package_SWM by metis
next
  assume "length data = 3"
  then have "data = [data ! 0, data ! 1, data ! 2]"
    by (rule list3)
  then show "read_package ''RUN'' data
       = Inr (Instance (Running (data ! 0) (data ! 1) (data ! 2)))"
    using read_package_RUN by metis
next
  assume "length data = 4"
  then have "data = [data ! 0, data ! 1, data ! 2, data ! 3]"
    by (rule list4)
  then show "read_package ''WLK'' data
       = Inr (Instance (SportsWalking (data ! 0) (data ! 1) (data ! 2) (data ! 3)))"
    using read_package_WLK by metis
qed

theorem read_package_constructs_witness:
  "length [720, 1, 80, 25, 40 :: real] = 5
   \<and> read_package ''SWM'' [720, 1, 80, 25, 40] = Inr (Instance (Swimming 720 1 80 25 40))
   \<and> length [15000, 1, 75 :: real] = 3
   \<and> read_package ''RUN'' [15000, 1, 75] = Inr (Instance (Running 15000 1 75))
   \<and> length [9000, 1, 75, 180 :: real] = 4
   \<and> read_package ''WLK'' [9000, 1, 75, 180] = Inr (Instance (SportsWalking 9000 1 75 180))"
  using read_package_constructs [of "[720, 1, 80, 25, 40]"]
    read_package_constructs [of "[15000, 1, 75]"]
    read_package_constructs [of "[9000, 1, 75, 180]"]
  by simp

subsection \<open>The base class\<close>

text \<open>
  C4 (what the code does). \<open>get_spent_calories\<close> of a base \<open>Training\<close> raises nothing:
  it returns the class \<open>NotImplementedError\<close> as an ordinary value. The claim asks for
  a signalled failure there.
\<close>

theorem Training_calories_returns_class:
  "get_spent_calories (Training a d w) = Inr (ExcClass NotImplementedError)"
  by simp

subsection \<open>Running\<close>

text \<open>
  C2 (as the code has it). For the Running workout built from action = 15000,
  duration = 1, weight = 75: the distance is 9.75 km, the mean speed is 9.75 km/h, and
  the calories are (18 * 9.75 - 20) * 75 / 1000 * (1 * 60), which is 699.75.
\<close>

theorem Running_example_calories:
  "get_distance (Running 15000 1 75) = 9.75
   \<and> get_mean_speed (Running 15000 1 75) = Inr 9.75
   \<and> get_spent_calories (Running 15000 1 75)
       = Inr (Num ((COEFF_CAL_1 * 9.75 - COEFF_CAL_2) * 75 / 1000 * (1 * 60)))
   \<and> COEFF_CAL_1 = 18 \<and> COEFF_CAL_2 = 20
   \<and> get_spent_calories (Running 15000 1 75) = Inr (Num 699.75)"
  by (simp add: method_defs)

text \<open>
  C2 (as the claim has it) fails: the calories of that workout are not 683.25.
\<close>

theorem Running_example_not_683_25:
  "get_spent_calories (Running 15000 1 75) \<noteq> Inr (Num 683.25)"
  by (simp add: method_defs)

text \<open>
  C6. For every Running workout the distance is action * 0.00065, that is
  action * 0.65 / 1000; and when the duration is positive the mean speed is that
  distance divided by the duration.
\<close>

theorem Running_distance_speed:
  "get_distance (Running a d w) = a * 0.00065
   \<and> get_distance (Running a d w) = a * 0.65 / 1000
   \<and> (0 < d \<longrightarrow> get_mean_speed (Running a d w) = Inr (get_distance (Running a d w) / d))"
  by (simp add: method_defs)

theorem Running_distance_speed_witness:
  "(0::real) < 2 \<and> get_distance (Running 15000 2 75) = 15000 * 0.00065
   \<and> get_mean_speed (Running 15000 2 75) = Inr (get_distance (Running 15000 2 75) / 2)"
proof -
  have pre: "(0::real) < 2"
    by simp
  with Running_distance_speed [of 15000 2 75] show ?thesis
    by blast
qed

text \<open>
  C10. A Running workout with action >= 0, duration > 0 and weight > 0 whose mean speed
  is below 20/18 km/h has strictly negative calories; action = 1000, duration = 1,
  weight = 75 is such a workout, with mean speed 0.65 km/h and calories -37.35.
\<close>

theorem Running_calories_negative:
  "(0 \<le> a \<and> 0 < d \<and> 0 < w \<and> get_mean_speed (Running a d w) = Inr v \<and> v < 20 / 18 \<longrightarrow>
      (\<exists>c. get_spent_calories (Running a d w) = Inr (Num c) \<and> c < 0))
   \<and> get_mean_speed (Running 1000 1 75) = Inr 0.65
   \<and> get_spent_calories (Running 1000 1 75) = Inr (Num (- 37.35))"
proof (intro conjI impI)
  assume h: "0 \<le> a \<and> 0 < d \<and> 0 < w \<and> get_mean_speed (Running a d w) = Inr v \<and> v < 20 / 18"
  then have "get_spent_calories (Running a d w)
      = Inr (Num ((18 * v - 20) * w / 1000 * (d * 60)))"
    by (simp add: class_consts)
  moreover have "(18 * v - 20) * w / 1000 * (d * 60) < 0"
    using h by (intro Running_formula_negative) auto
  ultimately show "\<exists>c. get_spent_calories (Running a d w) = Inr (Num c) \<and> c < 0"
    by blast
next
  show "get_mean_speed (Running 1000 1 75) = Inr 0.65"
    by (simp add: method_defs)
next
  show "get_spent_calories (Running 1000 1 75) = Inr (Num (- 37.35))"
    by (simp add: method_defs)
qed

theorem Running_calories_negative_witness:
  "(0::real) \<le> 1000 \<and> (0::real) < 1 \<and> (0::real) < 75
   \<and> get_mean_speed (Running 1000 1 75) = Inr 0.65 \<and> (0.65::real) < 20 / 18
   \<and> (\<exists>c. get_spent_calories (Running 1000 1 75) = Inr (Num c) \<and> c < 0)"
proof -
  have pre: "(0::real) \<le> 1000 \<and> (0::real) < 1 \<and> (0::real) < 75 \<and> (0.65::real) < 20 / 18"
    by simp
  with Running_calories_negative [of 1000 1 75 "0.65"] show ?thesis
    by blast
qed

subsection \<open>SportsWalking\<close>

text \<open>
  C3. For every SportsWalking workout with duration > 0 and height > 0 the calories are
  (0.035 * weight + (mean_speed^2 // height) * 0.029 * weight) * (duration * 60), where
  \<open>//\<close> is the floor of the quotient. For action = 9000, duration = 1, weight = 75,
  height = 180 the distance and the mean speed are 5.85, the floored term is 0 and the
  calories are 0.035 * 75 * 60 = 157.5, which is not what true division would give.
\<close>

theorem SportsWalking_calories_floor:
  "(0 < d \<and> 0 < h \<longrightarrow>
      (\<exists>ms. get_mean_speed (SportsWalking a d w h) = Inr ms
         \<and> get_spent_calories (SportsWalking a d w h)
             = Inr (Num ((0.035 * w + real_of_int \<lfloor>ms\<^sup>2 / h\<rfloor> * 0.029 * w) * (d * 60)))))
   \<and> get_distance (SportsWalking 9000 1 75 180) = 5.85
   \<and> get_mean_speed (SportsWalking 9000 1 75 180) = Inr 5.85
   \<and> \<lfloor>(5.85::real)\<^sup>2 / 180\<rfloor> = 0
   \<and> get_spent_calories (SportsWalking 9000 1 75 180) = Inr (Num 157.5)
   \<and> (0.035 * 75 * 60 :: real) = 157.5
   \<and> get_spent_calories (SportsWalking 9000 1 75 180)
        \<noteq> Inr (Num ((0.035 * 75 + (5.85\<^sup>2 / 180) * 0.029 * 75) * (1 * 60)))"
proof -
  have gen: "0 < d \<and> 0 < h \<longrightarrow>
      (\<exists>ms. get_mean_speed (SportsWalking a d w h) = Inr ms
         \<and> get_spent_calories (SportsWalking a d w h)
             = Inr (Num ((0.035 * w + real_of_int \<lfloor>ms\<^sup>2 / h\<rfloor> * 0.029 * w) * (d * 60))))"
    by (simp add: method_defs)
  have dist: "get_distance (SportsWalking 9000 1 75 180) = 5.85"
    by (simp add: method_defs)
  have ms: "get_mean_speed (SportsWalking 9000 1 75 180) = Inr 5.85"
    by (simp add: method_defs)
  have cal: "get_spent_calories (SportsWalking 9000 1 75 180) = Inr (Num 157.5)"
    using walking_floor by (simp add: method_defs)
  have arith: "(0.035 * 75 * 60 :: real) = 157.5"
    by simp
  have true_div: "get_spent_calories (SportsWalking 9000 1 75 180)
        \<noteq> Inr (Num ((0.035 * 75 + (5.85\<^sup>2 / 180) * 0.029 * 75) * (1 * 60)))"
    unfolding cal by (simp add: power2_eq_square)
  from gen dist ms walking_floor cal arith true_div show ?thesis
    by blast
qed

theorem SportsWalking_calories_floor_witness:
  "(0::real) < 1 \<and> (0::real) < 180
   \<and> (\<exists>ms. get_mean_speed (SportsWalking 9000 1 75 180) = Inr ms
         \<and> get_spent_calories (SportsWalking 9000 1 75 180)
             = Inr (Num ((0.035 * 75 + real_of_int \<lfloor>ms\<^sup>2 / 180\<rfloor> * 0.029 * 75) * (1 * 60))))"
proof -
  have pre: "(0::real) < 1 \<and> (0::real) < 180"
    by simp
  with SportsWalking_calories_floor [of 1 180 9000 75] show ?thesis
    by blast
qed

subsection \<open>Swimming\<close>

text \<open>
  C5. For every Swimming workout with duration > 0 the mean speed is
  (length_pool * count_pool) / 1000 / duration and the calories are
  (mean_speed + 1.1) * (2 * weight); for action = 720, duration = 1, weight = 80,
  length_pool = 25, count_pool = 40 the mean speed is 1.0 and the calories are 336.0.
\<close>

theorem Swimming_speed_calories:
  "(0 < d \<longrightarrow>
      get_mean_speed (Swimming a d w lp cp) = Inr ((lp * cp) / 1000 / d)
      \<and> get_spent_calories (Swimming a d w lp cp)
          = Inr (Num (((lp * cp) / 1000 / d + 1.1) * (2 * w))))
   \<and> get_mean_speed (Swimming 720 1 80 25 40) = Inr 1
   \<and> get_spent_calories (Swimming 720 1 80 25 40) = Inr (Num 336)"
  by (simp add: method_defs)

theorem Swimming_speed_calories_witness:
  "(0::real) < 1
   \<and> get_mean_speed (Swimming 720 1 80 25 40) = Inr ((25 * 40) / 1000 / 1)
   \<and> get_spent_calories (Swimming 720 1 80 25 40)
        = Inr (Num (((25 * 40) / 1000 / 1 + 1.1) * (2 * 80)))"
proof -
  have pre: "(0::real) < 1"
    by simp
  with Swimming_speed_calories [of 1 720 80 25 40] show ?thesis
    by blast
qed

text \<open>
  C9. For every Swimming workout with duration > 0, \<open>show_training_info\<close> reports the
  distance action * 1.38 / 1000, whatever length_pool and count_pool are, and the speed
  (length_pool * count_pool) / 1000 / duration. So the distance need not be speed times
  duration: for action = 720, duration = 1, length_pool = 25, count_pool = 40 the
  distance is 0.9936 km and speed * duration is 1.0 km.
\<close>

theorem Swimming_reported_distance:
  "(0 < d \<longrightarrow>
      (\<exists>m. show_training_info (Swimming a d w lp cp) = Inr m
         \<and> InfoMessage.distance m = Num (a * 1.38 / 1000)
         \<and> InfoMessage.speed m = Num ((lp * cp) / 1000 / d)
         \<and> (\<forall>lp' cp'. \<exists>m'. show_training_info (Swimming a d w lp' cp') = Inr m'
               \<and> InfoMessage.distance m' = InfoMessage.distance m)))
   \<and> (\<exists>m. show_training_info (Swimming 720 1 80 25 40) = Inr m
         \<and> InfoMessage.distance m = Num 0.9936
         \<and> InfoMessage.speed m = Num 1
         \<and> InfoMessage.duration m = Num 1
         \<and> (1 * 1 :: real) \<noteq> 0.9936)"
  by (simp add: show_training_info_def method_defs)

theorem Swimming_reported_distance_witness:
  "(0::real) < 1
   \<and> (\<exists>m. show_training_info (Swimming 720 1 80 25 40) = Inr m
         \<and> InfoMessage.distance m = Num (720 * 1.38 / 1000)
         \<and> InfoMessage.speed m = Num ((25 * 40) / 1000 / 1)
         \<and> (\<forall>lp' cp'. \<exists>m'. show_training_info (Swimming 720 1 80 lp' cp') = Inr m'
               \<and> InfoMessage.distance m' = InfoMessage.distance m))"
proof -
  have pre: "(0::real) < 1"
    by simp
  with Swimming_reported_distance [of 1 720 80 25 40] show ?thesis
    by blast
qed

subsection \<open>The run of the script\<close>

text \<open>The three packages of the script, from \<open>main\<close> to the printed line, and a value
  that is not a workout.\<close>

lemma show_training_info_Running_example:
  "show_training_info (Running 15000 1 75)
     = Inr \<lparr>training_type = ''Running'', duration = Num 1, distance = Num 9.75,
            speed = Num 9.75, calories = Num 699.75, MESSAGE = MESSAGE_default\<rparr>"
  by (simp add: show_training_info_def method_defs)

lemma main_Running_example:
  "main (Instance (Running 15000 1 75))
     = Inr (text_type @ ''Running'' @ text_duration @ ''1.000'' @ text_distance @ ''9.750''
            @ text_speed @ ''9.750'' @ text_calories @ ''699.750'' @ text_end)"
proof -
  have "fixed_3f 9.75 = ''9.750''" and "fixed_3f 1 = ''1.000''"
    and "fixed_3f 699.75 = ''699.750''"
    by (simp_all add: fixed_3f_eval)
  then show ?thesis
    by (simp add: show_training_info_Running_example get_message_def MESSAGE_default_def)
qed

lemma main_SportsWalking_example:
  "main (Instance (SportsWalking 9000 1 75 180))
     = Inr (text_type @ ''SportsWalking'' @ text_duration @ ''1.000'' @ text_distance @ ''5.850''
            @ text_speed @ ''5.850'' @ text_calories @ ''157.500'' @ text_end)"
proof -
  have info: "show_training_info (SportsWalking 9000 1 75 180)
     = Inr \<lparr>training_type = ''SportsWalking'', duration = Num 1, distance = Num 5.85,
            speed = Num 5.85, calories = Num 157.5, MESSAGE = MESSAGE_default\<rparr>"
    using walking_floor by (simp add: show_training_info_def method_defs)
  have "fixed_3f 5.85 = ''5.850''" and "fixed_3f 1 = ''1.000''"
    and "fixed_3f 157.5 = ''157.500''"
    by (simp_all add: fixed_3f_eval)
  then show ?thesis
    by (simp add: info get_message_def MESSAGE_default_def)
qed

lemma main_Swimming_example:
  "main (Instance (Swimming 720 1 80 25 40))
     = Inr (text_type @ ''Swimming'' @ text_duration @ ''1.000'' @ text_distance @ ''0.994''
            @ text_speed @ ''1.000'' @ text_calories @ ''336.000'' @ text_end)"
proof -
  have info: "show_training_info (Swimming 720 1 80 25 40)
     = Inr \<lparr>training_type = ''Swimming'', duration = Num 1, distance = Num 0.9936,
            speed = Num 1, calories = Num 336, MESSAGE = MESSAGE_default\<rparr>"
    by (simp add: show_training_info_def method_defs)
  have "fixed_3f 0.9936 = ''0.994''" and "fixed_3f 1 = ''1.000''"
    and "fixed_3f 336 = ''336.000''"
    by (simp_all add: fixed_3f_eval)
  then show ?thesis
    by (simp add: info get_message_def MESSAGE_default_def)
qed

lemma main_not_a_workout:
  "main (ExcClass ValueError) = Inl AttributeError"
  by simp

subsection \<open>The message\<close>

text \<open>
  C8 (as the code has it). For every InfoMessage whose \<open>MESSAGE\<close> is the default
  template, with any training_type string and finite numbers for duration, distance,
  speed and calories, \<open>get_message\<close> returns the template with the type name inserted
  as it is and each of the four numbers in its place with exactly three decimal places,
  the printed number being within half a thousandth of the field.
\<close>

theorem get_message_three_decimal_places:
  "MESSAGE m = MESSAGE_default
   \<and> InfoMessage.duration m = Num d \<and> InfoMessage.distance m = Num s
   \<and> InfoMessage.speed m = Num v \<and> InfoMessage.calories m = Num c
   \<longrightarrow>
   (\<exists>du di sp ca.
      get_message m
        = Inr (text_type @ training_type m @ text_duration @ du @ text_distance @ di
               @ text_speed @ sp @ text_calories @ ca @ text_end)
      \<and> three_decimal_places du \<and> \<bar>decimal_value du - d\<bar> \<le> 1 / 2000
      \<and> three_decimal_places di \<and> \<bar>decimal_value di - s\<bar> \<le> 1 / 2000
      \<and> three_decimal_places sp \<and> \<bar>decimal_value sp - v\<bar> \<le> 1 / 2000
      \<and> three_decimal_places ca \<and> \<bar>decimal_value ca - c\<bar> \<le> 1 / 2000)"
proof
  assume h: "MESSAGE m = MESSAGE_default
   \<and> InfoMessage.duration m = Num d \<and> InfoMessage.distance m = Num s
   \<and> InfoMessage.speed m = Num v \<and> InfoMessage.calories m = Num c"
  then have "get_message m
      = Inr (text_type @ training_type m @ text_duration @ fixed_3f d @ text_distance
             @ fixed_3f s @ text_speed @ fixed_3f v @ text_calories @ fixed_3f c @ text_end)"
    by (simp add: get_message_default)
  then show "\<exists>du di sp ca.
      get_message m
        = Inr (text_type @ training_type m @ text_duration @ du @ text_distance @ di
               @ text_speed @ sp @ text_calories @ ca @ text_end)
      \<and> three_decimal_places du \<and> \<bar>decimal_value du - d\<bar> \<le> 1 / 2000
      \<and> three_decimal_places di \<and> \<bar>decimal_value di - s\<bar> \<le> 1 / 2000
      \<and> three_decimal_places sp \<and> \<bar>decimal_value sp - v\<bar> \<le> 1 / 2000
      \<and> three_decimal_places ca \<and> \<bar>decimal_value ca - c\<bar> \<le> 1 / 2000"
    using fixed_3f_three_decimal_places fixed_3f_value by blast
qed

theorem get_message_three_decimal_places_witness:
  "MESSAGE Running_summary = MESSAGE_default
   \<and> InfoMessage.duration Running_summary = Num 1
   \<and> InfoMessage.distance Running_summary = Num 9.75
   \<and> InfoMessage.speed Running_summary = Num 9.75
   \<and> InfoMessage.calories Running_summary = Num 699.75
   \<and> (\<exists>du di sp ca.
        get_message Running_summary
          = Inr (text_type @ ''Running'' @ text_duration @ du @ text_distance @ di
                 @ text_speed @ sp @ text_calories @ ca @ text_end)
        \<and> three_decimal_places du \<and> \<bar>decimal_value du - 1\<bar> \<le> 1 / 2000
        \<and> three_decimal_places di \<and> \<bar>decimal_value di - 9.75\<bar> \<le> 1 / 2000
        \<and> three_decimal_places sp \<and> \<bar>decimal_value sp - 9.75\<bar> \<le> 1 / 2000
        \<and> three_decimal_places ca \<and> \<bar>decimal_value ca - 699.75\<bar> \<le> 1 / 2000)"
proof -
  have pre: "MESSAGE Running_summary = MESSAGE_default
   \<and> InfoMessage.duration Running_summary = Num 1
   \<and> InfoMessage.distance Running_summary = Num 9.75
   \<and> InfoMessage.speed Running_summary = Num 9.75
   \<and> InfoMessage.calories Running_summary = Num 699.75"
    by (simp add: Running_summary_def)
  have name: "training_type Running_summary = ''Running''"
    by (simp add: Running_summary_def)
  from pre get_message_three_decimal_places [of Running_summary 1 "9.75" "9.75" "699.75"]
  show ?thesis
    unfolding name by blast
qed

text \<open>
  C8 (as the claim has it) fails in two ways. A float that is not finite has no decimal
  places: with the duration \<open>nan\<close>, \<open>inf\<close> or \<open>-inf\<close> the message has that word in the
  place of the duration. And \<open>MESSAGE\<close> is a field of the dataclass: an InfoMessage built
  with another template, here the plain text "done", returns that template filled in, not
  the fixed one.
\<close>

theorem get_message_not_three_decimal_places:
  "\<not> (\<exists>du di sp ca.
        get_message (Running_summary\<lparr>duration := NaN\<rparr>)
          = Inr (text_type @ ''Running'' @ text_duration @ du @ text_distance @ di
                 @ text_speed @ sp @ text_calories @ ca @ text_end)
        \<and> three_decimal_places du \<and> three_decimal_places di
        \<and> three_decimal_places sp \<and> three_decimal_places ca)
   \<and> \<not> (\<exists>du di sp ca.
        get_message (Running_summary\<lparr>duration := PosInf\<rparr>)
          = Inr (text_type @ ''Running'' @ text_duration @ du @ text_distance @ di
                 @ text_speed @ sp @ text_calories @ ca @ text_end)
        \<and> three_decimal_places du \<and> three_decimal_places di
        \<and> three_decimal_places sp \<and> three_decimal_places ca)
   \<and> \<not> (\<exists>du di sp ca.
        get_message (Running_summary\<lparr>duration := NegInf\<rparr>)
          = Inr (text_type @ ''Running'' @ text_duration @ du @ text_distance @ di
                 @ text_speed @ sp @ text_calories @ ca @ text_end)
        \<and> three_decimal_places du \<and> three_decimal_places di
        \<and> three_decimal_places sp \<and> three_decimal_places ca)
   \<and> \<not> (\<exists>du di sp ca.
        get_message (Running_summary\<lparr>MESSAGE := [Text ''done'']\<rparr>)
          = Inr (text_type @ ''Running'' @ text_duration @ du @ text_distance @ di
                 @ text_speed @ sp @ text_calories @ ca @ text_end)
        \<and> three_decimal_places du \<and> three_decimal_places di
        \<and> three_decimal_places sp \<and> three_decimal_places ca)"
proof (intro conjI)
  have "format_3f NaN = Inr (CHR ''n'' # CHR ''a'' # ''n'')"
    by simp
  moreover have "\<not> (is_digit CHR ''n'' \<or> (CHR ''n'' = CHR ''-'' \<and> is_digit CHR ''a''))"
    by (simp add: is_digit_def)
  ultimately show "\<not> (\<exists>du di sp ca.
          get_message (Running_summary\<lparr>duration := NaN\<rparr>)
            = Inr (text_type @ ''Running'' @ text_duration @ du @ text_distance @ di
                   @ text_speed @ sp @ text_calories @ ca @ text_end)
          \<and> three_decimal_places du \<and> three_decimal_places di
          \<and> three_decimal_places sp \<and> three_decimal_places ca)"
    by (rule duration_word_not_rendered)
next
  have "format_3f PosInf = Inr (CHR ''i'' # CHR ''n'' # ''f'')"
    by simp
  moreover have "\<not> (is_digit CHR ''i'' \<or> (CHR ''i'' = CHR ''-'' \<and> is_digit CHR ''n''))"
    by (simp add: is_digit_def)
  ultimately show "\<not> (\<exists>du di sp ca.
          get_message (Running_summary\<lparr>duration := PosInf\<rparr>)
            = Inr (text_type @ ''Running'' @ text_duration @ du @ text_distance @ di
                   @ text_speed @ sp @ text_calories @ ca @ text_end)
          \<and> three_decimal_places du \<and> three_decimal_places di
          \<and> three_decimal_places sp \<and> three_decimal_places ca)"
    by (rule duration_word_not_rendered)
next
  have "format_3f NegInf = Inr (CHR ''-'' # CHR ''i'' # ''nf'')"
    by simp
  moreover have "\<not> (is_digit CHR ''-'' \<or> (CHR ''-'' = CHR ''-'' \<and> is_digit CHR ''i''))"
    by (simp add: is_digit_def)
  ultimately show "\<not> (\<exists>du di sp ca.
          get_message (Running_summary\<lparr>duration := NegInf\<rparr>)
            = Inr (text_type @ ''Running'' @ text_duration @ du @ text_distance @ di
                   @ text_speed @ sp @ text_calories @ ca @ text_end)
          \<and> three_decimal_places du \<and> three_decimal_places di
          \<and> three_decimal_places sp \<and> three_decimal_places ca)"
    by (rule duration_word_not_rendered)
next
  show "\<not> (\<exists>du di sp ca.
        get_message (Running_summary\<lparr>MESSAGE := [Text ''done'']\<rparr>)
          = Inr (text_type @ ''Running'' @ text_duration @ du @ text_distance @ di
                 @ text_speed @ sp @ text_calories @ ca @ text_end)
        \<and> three_decimal_places du \<and> three_decimal_places di
        \<and> three_decimal_places sp \<and> three_decimal_places ca)"
  proof
    assume "\<exists>du di sp ca.
        get_message (Running_summary\<lparr>MESSAGE := [Text ''done'']\<rparr>)
          = Inr (text_type @ ''Running'' @ text_duration @ du @ text_distance @ di
                 @ text_speed @ sp @ text_calories @ ca @ text_end)
        \<and> three_decimal_places du \<and> three_decimal_places di
        \<and> three_decimal_places sp \<and> three_decimal_places ca"
    then obtain r where
      "get_message (Running_summary\<lparr>MESSAGE := [Text ''done'']\<rparr>)
         = Inr (text_type @ ''Running'' @ r)"
      by (elim exE conjE)
    then have "''done'' = text_type @ ''Running'' @ r"
      by (simp only: get_message_other_template sum.inject)
    then have "length ''done'' = length (text_type @ ''Running'' @ r)"
      by (rule arg_cong)
    then show False
      by simp
  qed
qed

end
